theory Spec2Isabelle
  imports Main "HOL-Library.Word"
begin

section \<open>Outcomes of a call\<close>

text \<open>
  A Go call of the toolkit ends in one of three ways: \<open>log.Fatal\<close> prints and calls
  \<open>os.Exit(1)\<close>, so the process is gone and the caller gets nothing (\<open>Exit\<close>); a
  run-time panic such as an index out of range (\<open>Panic\<close>); or an ordinary return
  (\<open>Return\<close>).
\<close>

datatype 'a outcome = Exit | Panic | Return 'a

section \<open>RandomString\<close>

text \<open>
  \<^verbatim>\<open>const randomStringSource = "abc...xyzABC...XYZ0123456789_+"\<close>
\<close>

definition randomStringSource :: string where
  "randomStringSource =
     ''abcdefghijklmnopqrstuvwxyzABCDEFGHIJKLMNOPQRSTUVWXYZ0123456789_+''"

text \<open>
  One call \<open>rand.Prime(rand.Reader, len(r))\<close>: either the error of the reader, or the
  number \<open>p\<close> that was drawn. The random source is the sequence of these results, read
  at a position that each call advances.
\<close>

datatype prime_draw = ReaderError | Prime nat

type_synonym rand_source = "nat \<Rightarrow> prime_draw"

text \<open>
  The loop \<open>for i := range s\<close>. \<open>p.Uint64()\<close> and \<open>uint64(len(r))\<close> are 64-bit
  unsigned values and \<open>x % y\<close> is their remainder; \<open>s[i] = r[x%y]\<close> updates the slice
  in place. A failing draw reaches \<open>log.Fatal\<close>.
\<close>

function RandomString_loop ::
  "rand_source \<Rightarrow> nat \<Rightarrow> string \<Rightarrow> nat \<Rightarrow> string outcome \<times> nat" where
  "RandomString_loop src pos s i =
     (if i < length s then
        (case src pos of
           ReaderError \<Rightarrow> (Exit, Suc pos)
         | Prime p \<Rightarrow>
             (let x = (word_of_nat p :: 64 word);
                  y = (word_of_nat (length randomStringSource) :: 64 word)
              in RandomString_loop src (Suc pos)
                   (s[i := randomStringSource ! unat (x mod y)]) (Suc i)))
      else (Return s, pos))"
  by pat_completeness auto
termination
  by (relation "measure (\<lambda>(src, pos, s, i). length s - i)") auto

text \<open>
  \<open>make([]rune, n)\<close> panics for a negative \<open>n\<close> and otherwise gives \<open>n\<close> zero runes.
  The result is the outcome together with the new position of the random source.
\<close>

definition RandomString :: "rand_source \<Rightarrow> nat \<Rightarrow> int \<Rightarrow> string outcome \<times> nat" where
  "RandomString src pos n =
     (if n < 0 then (Panic, pos)
      else RandomString_loop src pos (replicate (nat n) (CHR 0x00)) 0)"

text \<open>The character that one drawn number selects: \<open>r[x%y]\<close>.\<close>

definition pick :: "nat \<Rightarrow> char" where
  "pick p =
     randomStringSource !
       unat ((word_of_nat p :: 64 word) mod
             (word_of_nat (length randomStringSource) :: 64 word))"

text \<open>
  \<open>rand.Prime\<close> returns a prime of the requested bit length, here 64, so at least
  \<open>2 ^ 63\<close>. Primality by trial division:
\<close>

definition is_prime :: "nat \<Rightarrow> bool" where
  "is_prime p = (1 < p \<and> (\<forall>d \<in> {2..<p}. \<not> d dvd p))"

section \<open>Errors\<close>

text \<open>
  Errors that the standard library or the operating system hands to the toolkit:
  the sentinels \<open>io.EOF\<close> and \<open>io.ErrUnexpectedEOF\<close>, the error types of
  \<open>encoding/json\<close> with the fields the toolkit reads (\<open>Offset\<close>, \<open>Field\<close>) or with
  their text, and any other error with the text that \<open>Error()\<close> gives.
\<close>

datatype lib_error =
    EOF
  | ErrUnexpectedEOF
  | SyntaxError int
  | UnmarshalTypeError string int
  | InvalidUnmarshalError string
  | OtherError string

text \<open>
  Errors that the toolkit returns: an error of the library passed on as it is
  (\<open>Lib\<close>), or one that the toolkit makes with \<open>errors.New\<close> or \<open>fmt.Errorf\<close>. Each
  constructor stands for one message of the source and carries what the message is
  formatted from:
  \<^item> \<open>ErrInvalidPath\<close>: "invalid path";
  \<^item> \<open>ErrTypeNotPermitted\<close>: "the uploaded file type is not permitted";
  \<^item> \<open>ErrEmptyString\<close>: "empty strings are not permitted";
  \<^item> \<open>ErrSlugZeroLength\<close>: "after removing characters, slug is of zero length";
  \<^item> \<open>ErrContentType\<close>: "unexpected content type of ...";
  \<^item> \<open>ErrBadlyFormedAt\<close>: "body contains badly formed JSON (at character ...)";
  \<^item> \<open>ErrBadlyFormed\<close>: "body contains badly formed JSON";
  \<^item> \<open>ErrIncorrectType\<close>: "body contains incorrect JSON type for field ...";
  \<^item> \<open>ErrInvalidJSONAt\<close>: "body contains invalid JSON at ...";
  \<^item> \<open>ErrEmptyBody\<close>: "body must not be empty";
  \<^item> \<open>ErrUnknownField\<close>: "body contains unknown field ...";
  \<^item> \<open>ErrTooLarge\<close>: "body must not be larger than ... bytes";
  \<^item> \<open>ErrUnmarshalling\<close>: "error unnmarshalling JSON ...";
  \<^item> \<open>ErrOnlyOneValue\<close>: "body must contain only one JSON value".
\<close>

datatype error =
    Lib lib_error
  | ErrInvalidPath
  | ErrTypeNotPermitted
  | ErrEmptyString
  | ErrSlugZeroLength
  | ErrContentType string
  | ErrBadlyFormedAt int
  | ErrBadlyFormed
  | ErrIncorrectType string
  | ErrInvalidJSONAt int
  | ErrEmptyBody
  | ErrUnknownField string
  | ErrTooLarge int
  | ErrUnmarshalling string
  | ErrOnlyOneValue

section \<open>Slugify\<close>

text \<open>
  A Go string is a sequence of bytes, here a \<open>string\<close> of HOL. The functions of the
  library that Slugify calls work on the runes that the bytes encode in UTF-8. Every
  byte of a rune outside ASCII is \<open>0x80\<close> or more, so on the bytes a run of
  characters outside \<open>a-z\<close> and \<open>/\<close> is the same run. \<open>strings.ToLower\<close> is modelled
  on the ASCII letters and leaves the other bytes as they are: the model is exact for
  every input whose runes outside ASCII have a lower case outside ASCII.
\<close>

definition in_range :: "char \<Rightarrow> char \<Rightarrow> char \<Rightarrow> bool" where
  "in_range lo hi c = ((of_char lo :: nat) \<le> of_char c \<and> (of_char c :: nat) \<le> of_char hi)"

definition ToLower :: "string \<Rightarrow> string" where
  "ToLower s =
     map (\<lambda>c. if in_range (CHR ''A'') (CHR ''Z'') c
              then char_of ((of_char c :: nat) + 32) else c) s"

text \<open>
  The pattern of the source is \<^verbatim>\<open>[^a-z/d]+\<close>: a negated class with the range \<open>a-z\<close>
  and the two single characters \<open>/\<close> and \<open>d\<close>. A character matches the class when it
  is none of them.
\<close>

definition source_class :: "char \<Rightarrow> bool" where
  "source_class c =
     (\<not> (in_range (CHR ''a'') (CHR ''z'') c \<or> c = CHR ''/'' \<or> c = CHR ''d''))"

text \<open>
  \<open>re.ReplaceAllString(src, repl)\<close> for a pattern \<open>[...]+\<close>: every maximal run of
  characters of the class is replaced by \<open>repl\<close> (which has no \<open>$\<close> here).
\<close>

function ReplaceAllString :: "(char \<Rightarrow> bool) \<Rightarrow> string \<Rightarrow> string \<Rightarrow> string" where
  "ReplaceAllString cls [] repl = []"
| "ReplaceAllString cls (c # cs) repl =
     (if cls c then repl @ ReplaceAllString cls (dropWhile cls cs) repl
      else c # ReplaceAllString cls cs repl)"
  by pat_completeness auto
termination
  by (relation "measure (\<lambda>(cls, s, repl). length s)")
     (auto simp: length_dropWhile_le less_Suc_eq_le)

text \<open>\<open>strings.Trim(s, cutset)\<close> removes the leading and trailing characters of the cutset.\<close>

definition Trim :: "string \<Rightarrow> string \<Rightarrow> string" where
  "Trim s cutset =
     rev (dropWhile (\<lambda>c. c \<in> set cutset) (rev (dropWhile (\<lambda>c. c \<in> set cutset) s)))"

text \<open>
  Slugify returns \<open>("", err)\<close> or \<open>(slug, nil)\<close>: \<open>Inl err\<close> or \<open>Inr slug\<close>.
  \<open>regexp.Compile\<close> of the constant pattern succeeds, so its error branch is never taken.
\<close>

definition Slugify :: "string \<Rightarrow> error + string" where
  "Slugify s =
     (if length s < 1 then Inl ErrEmptyString
      else
        (let slug = Trim (ReplaceAllString source_class (ToLower s) ''-'') ''-''
         in if length slug \<le> 0 then Inl ErrSlugZeroLength else Inr slug))"

text \<open>
  The slug as the specification words it, for comparison: lower case, every maximal run
  of characters outside the ranges \<open>a-z\<close> and \<open>0-9\<close> replaced by one hyphen, leading
  and trailing hyphens trimmed; an empty input and an empty result are errors.
\<close>

definition spec_class :: "char \<Rightarrow> bool" where
  "spec_class c =
     (\<not> (in_range (CHR ''a'') (CHR ''z'') c \<or> in_range (CHR ''0'') (CHR ''9'') c))"

definition Slugify_spec :: "string \<Rightarrow> error + string" where
  "Slugify_spec s =
     (if s = [] then Inl ErrEmptyString
      else
        (let slug = Trim (ReplaceAllString spec_class (ToLower s) ''-'') ''-''
         in if slug = [] then Inl ErrSlugZeroLength else Inr slug))"

section \<open>The configuration and the environment\<close>

text \<open>
  \<^verbatim>\<open>type Tools struct { MaxFileSize int; AllowedTypes []string;
                      MaxJSONSize int; AllowUnknownFields bool }\<close>
  Every method has the receiver \<open>*Tools\<close>, so a method can write the fields. The model
  of a method that reads or writes a field returns the value of \<open>Tools\<close> after the call.
\<close>

record Tools =
  MaxFileSize :: int
  AllowedTypes :: "string list"
  MaxJSONSize :: int
  AllowUnknownFields :: bool

record UploadedFile =
  NewFileName :: string
  OriginalFileName :: string
  FileSize :: int

text \<open>
  One file part of a parsed form, a \<open>multipart.FileHeader\<close>: its \<open>Filename\<close>, what
  \<open>Open()\<close> gives (an error, or a file with these bytes) and what \<open>Seek(0, 0)\<close> on that
  file gives.
\<close>

record FileHeader =
  Filename :: string
  Open_result :: "lib_error + string"
  Seek_err :: "lib_error option"

text \<open>
  The request, as far as the toolkit looks at it:
  \<^item> \<open>ParseMultipartForm r maxMemory\<close> is the error of \<open>r.ParseMultipartForm(maxMemory)\<close>,
    or \<open>r.MultipartForm.File\<close> after it: the form fields with their file parts, in
    the order in which \<open>range\<close> visits the map;
  \<^item> \<open>Header_Get r key\<close> is \<open>r.Header.Get(key)\<close>;
  \<^item> \<open>Decode r limit strict k\<close> is the error (or \<open>None\<close> for \<open>nil\<close>) of the \<open>k\<close>-th
    call of \<open>Decode\<close> on a \<open>json.Decoder\<close> that reads the body through
    \<open>http.MaxBytesReader\<close> with that limit, after \<open>DisallowUnknownFields()\<close> when
    \<open>strict\<close> holds.
\<close>

record Request =
  ParseMultipartForm :: "int \<Rightarrow> lib_error + (string \<times> FileHeader list) list"
  Header_Get :: "string \<Rightarrow> string"
  Decode :: "int \<Rightarrow> bool \<Rightarrow> nat \<Rightarrow> lib_error option"

text \<open>
  What the library and the operating system answer:
  \<^item> \<open>rand\<close>: the results of the successive calls of \<open>rand.Prime\<close>;
  \<^item> \<open>DetectContentType\<close>, \<open>EqualFold\<close>, \<open>TrimSpace\<close>: the functions of \<open>net/http\<close> and
    \<open>strings\<close> of these names;
  \<^item> \<open>MkdirAll_err path\<close>: the error of \<open>os.MkdirAll(path, 0755)\<close>;
  \<^item> \<open>Create_err dir name\<close>: the error of \<open>os.Create(filepath.Join(dir, name))\<close>;
  \<^item> \<open>Copy_err dir name\<close>: the failure of \<open>io.Copy\<close> into that file, with the number of
    bytes that were written before it.
\<close>

record env =
  rand :: rand_source
  DetectContentType :: "string \<Rightarrow> string"
  EqualFold :: "string \<Rightarrow> string \<Rightarrow> bool"
  TrimSpace :: "string \<Rightarrow> string"
  MkdirAll_err :: "string \<Rightarrow> lib_error option"
  Create_err :: "string \<Rightarrow> string \<Rightarrow> lib_error option"
  Copy_err :: "string \<Rightarrow> string \<Rightarrow> (nat \<times> lib_error) option"

text \<open>
  What the calls change outside the program:
  \<^item> \<open>rand_pos\<close>: how many results of \<open>rand.Prime\<close> have been used;
  \<^item> \<open>present\<close>: the paths for which \<open>os.Stat\<close> does not report \<open>fs.ErrNotExist\<close>;
  \<^item> \<open>created\<close>: the files that \<open>os.Create\<close> has made, oldest first, each with the
    directory and the name that were joined and the bytes written to it.
\<close>

record world =
  rand_pos :: nat
  present :: "string list"
  created :: "(string \<times> string \<times> string) list"

section \<open>CreateDirIfNotExists\<close>

definition CreateDirIfNotExists :: "env \<Rightarrow> string \<Rightarrow> world \<Rightarrow> error option \<times> world" where
  "CreateDirIfNotExists E path w =
     (if length (TrimSpace E path) < 1 then (Some ErrInvalidPath, w)
      else if path \<notin> set (present w) then
        (case MkdirAll_err E path of
           Some err \<Rightarrow> (Some (Lib err), w)
         | None \<Rightarrow> (None, w\<lparr>present := path # present w\<rparr>))
      else (None, w))"

section \<open>UploadFile and UploadOneFile\<close>

text \<open>
  \<open>filepath.Ext(path)\<close>: the loop goes down from the last byte, stops at a path
  separator and returns the suffix from the first dot it meets.
\<close>

fun Ext_loop :: "string \<Rightarrow> nat \<Rightarrow> string" where
  "Ext_loop path 0 = []"
| "Ext_loop path (Suc i) =
     (if path ! i = CHR ''/'' then []
      else if path ! i = CHR ''.'' then drop i path
      else Ext_loop path i)"

definition Ext :: "string \<Rightarrow> string" where
  "Ext path = Ext_loop path (length path)"

text \<open>
  \<open>buf := make([]byte, 512); _, err = inFile.Read(buf)\<close>: at the end of the file, which
  for an empty file is at once, \<open>Read\<close> returns \<open>io.EOF\<close>; otherwise the first bytes of
  the file are in \<open>buf\<close> and the rest of \<open>buf\<close> is zero.
\<close>

definition Read512 :: "string \<Rightarrow> lib_error + string" where
  "Read512 content =
     (if content = [] then Inl EOF
      else Inr (take 512 content @ replicate (512 - length content) (CHR 0x00)))"

text \<open>
  The check of the file type: with a non-empty \<open>AllowedTypes\<close> some entry must be
  \<open>EqualFold\<close> to the sniffed type.
\<close>

definition type_allowed :: "env \<Rightarrow> Tools \<Rightarrow> string \<Rightarrow> bool" where
  "type_allowed E t fileType =
     (if length (AllowedTypes t) > 0
      then list_ex (\<lambda>x. EqualFold E x fileType) (AllowedTypes t)
      else True)"

text \<open>
  The function literal that UploadFile calls for each file part. It returns
  \<open>(nil, err)\<close> (\<open>Inl err\<close>) or the list with the new record appended (\<open>Inr\<close>), unless
  RandomString ends the process.
\<close>

definition upload_part ::
  "env \<Rightarrow> Tools \<Rightarrow> string \<Rightarrow> bool \<Rightarrow> FileHeader \<Rightarrow> UploadedFile list \<Rightarrow> world \<Rightarrow>
     (error + UploadedFile list) outcome \<times> world" where
  "upload_part E t uploadDir renameFile hdrs uploadedFiles w =
     (case Open_result hdrs of
        Inl err \<Rightarrow> (Return (Inl (Lib err)), w)
      | Inr content \<Rightarrow>
          (case Read512 content of
             Inl err \<Rightarrow> (Return (Inl (Lib err)), w)
           | Inr buf \<Rightarrow>
               if \<not> type_allowed E t (DetectContentType E buf)
               then (Return (Inl ErrTypeNotPermitted), w)
               else
                 (case Seek_err hdrs of
                    Some err \<Rightarrow> (Return (Inl (Lib err)), w)
                  | None \<Rightarrow>
                      (case (if renameFile
                             then (case RandomString (rand E) (rand_pos w) 25 of
                                     (Return s, pos) \<Rightarrow>
                                       (Return (s @ Ext (Filename hdrs)), w\<lparr>rand_pos := pos\<rparr>)
                                   | (Exit, pos) \<Rightarrow> (Exit, w\<lparr>rand_pos := pos\<rparr>)
                                   | (Panic, pos) \<Rightarrow> (Panic, w\<lparr>rand_pos := pos\<rparr>))
                             else (Return (Filename hdrs), w)) of
                         (Exit, w1) \<Rightarrow> (Exit, w1)
                       | (Panic, w1) \<Rightarrow> (Panic, w1)
                       | (Return newName, w1) \<Rightarrow>
                           (case Create_err E uploadDir newName of
                              Some err \<Rightarrow> (Return (Inl (Lib err)), w1)
                            | None \<Rightarrow>
                                (case Copy_err E uploadDir newName of
                                   Some (k, err) \<Rightarrow>
                                     (Return (Inl (Lib err)),
                                      w1\<lparr>created := created w1 @
                                            [(uploadDir, newName, take k content)]\<rparr>)
                                 | None \<Rightarrow>
                                     (Return (Inr (uploadedFiles @
                                        [\<lparr>NewFileName = newName,
                                          OriginalFileName = Filename hdrs,
                                          FileSize = int (length content)\<rparr>])),
                                      w1\<lparr>created := created w1 @
                                            [(uploadDir, newName, content)]\<rparr>)))))))"

text \<open>
  The two nested \<open>range\<close> loops visit the file parts of all fields in order. The result
  of the function literal is assigned to \<open>upLoadedFiles\<close> and \<open>err\<close>; with an error the
  function returns both, so the list it returns then is \<open>nil\<close>.
\<close>

fun upload_parts ::
  "env \<Rightarrow> Tools \<Rightarrow> string \<Rightarrow> bool \<Rightarrow> FileHeader list \<Rightarrow> UploadedFile list \<Rightarrow> world \<Rightarrow>
     (UploadedFile list \<times> error option) outcome \<times> world" where
  "upload_parts E t uploadDir renameFile [] upLoadedFiles w =
     (Return (upLoadedFiles, None), w)"
| "upload_parts E t uploadDir renameFile (hdrs # rest) upLoadedFiles w =
     (case upload_part E t uploadDir renameFile hdrs upLoadedFiles w of
        (Exit, w1) \<Rightarrow> (Exit, w1)
      | (Panic, w1) \<Rightarrow> (Panic, w1)
      | (Return (Inl err), w1) \<Rightarrow> (Return ([], Some err), w1)
      | (Return (Inr files), w1) \<Rightarrow> upload_parts E t uploadDir renameFile rest files w1)"

text \<open>
  \<open>rename ...bool\<close> is the list of the optional arguments:
  \<^verbatim>\<open>renameFile := true; if len(rename) > 0 { renameFile = rename[0] }\<close>
\<close>

definition rename_flag :: "bool list \<Rightarrow> bool" where
  "rename_flag rename = (case rename of [] \<Rightarrow> True | b # _ \<Rightarrow> b)"

text \<open>
  \<^verbatim>\<open>if t.MaxFileSize == 0 { t.MaxFileSize = 1024 * 1024 * 1024 }\<close>
  writes the field of the receiver.
\<close>

definition default_MaxFileSize :: "Tools \<Rightarrow> Tools" where
  "default_MaxFileSize t =
     (if MaxFileSize t = 0 then t\<lparr>MaxFileSize := 1024 * 1024 * 1024\<rparr> else t)"

text \<open>
  UploadFile. A failing \<open>r.ParseMultipartForm\<close> reaches \<open>log.Fatal\<close>, which ends the
  process; the \<open>return\<close> after it is never run.
\<close>

definition UploadFile ::
  "env \<Rightarrow> Tools \<Rightarrow> Request \<Rightarrow> string \<Rightarrow> bool list \<Rightarrow> world \<Rightarrow>
     (UploadedFile list \<times> error option) outcome \<times> Tools \<times> world" where
  "UploadFile E t r uploadDir rename w =
     (let renameFile = rename_flag rename;
          t1 = default_MaxFileSize t
      in case ParseMultipartForm r (MaxFileSize t1) of
           Inl err \<Rightarrow> (Exit, t1, w)
         | Inr form \<Rightarrow>
             (case CreateDirIfNotExists E uploadDir w of
                (Some err, w1) \<Rightarrow> (Return ([], Some err), t1, w1)
              | (None, w1) \<Rightarrow>
                  (case upload_parts E t1 uploadDir renameFile (concat (map snd form)) [] w1 of
                     (out, w2) \<Rightarrow> (out, t1, w2))))"

text \<open>
  UploadOneFile returns \<open>(nil, err)\<close> or \<open>(uploadedFile[0], nil)\<close>; indexing an empty
  slice is a run-time panic.
\<close>

definition UploadOneFile ::
  "env \<Rightarrow> Tools \<Rightarrow> Request \<Rightarrow> string \<Rightarrow> bool list \<Rightarrow> world \<Rightarrow>
     (UploadedFile option \<times> error option) outcome \<times> Tools \<times> world" where
  "UploadOneFile E t r uploadDir rename w =
     (let renameFile = rename_flag rename
      in case UploadFile E t r uploadDir [renameFile] w of
           (Exit, t1, w1) \<Rightarrow> (Exit, t1, w1)
         | (Panic, t1, w1) \<Rightarrow> (Panic, t1, w1)
         | (Return (uploadedFile, Some err), t1, w1) \<Rightarrow> (Return (None, Some err), t1, w1)
         | (Return (uploadedFile, None), t1, w1) \<Rightarrow>
             (case uploadedFile of
                [] \<Rightarrow> (Panic, t1, w1)
              | f # _ \<Rightarrow> (Return (Some f, None), t1, w1)))"

section \<open>ReadJSON\<close>

definition HasPrefix :: "string \<Rightarrow> string \<Rightarrow> bool" where
  "HasPrefix s prefix = (take (length prefix) s = prefix)"

definition TrimPrefix :: "string \<Rightarrow> string \<Rightarrow> string" where
  "TrimPrefix s prefix = (if HasPrefix s prefix then drop (length prefix) s else s)"

text \<open>
  The \<open>switch\<close> on the error of the first \<open>Decode\<close>, case by case in the order of the
  source. The two cases that look at \<open>err.Error()\<close> come before the case of
  \<open>*json.InvalidUnmarshalError\<close>, so they see its text too.
\<close>

fun decode_failure :: "lib_error \<Rightarrow> int \<Rightarrow> error" where
  "decode_failure (SyntaxError offset) maxJSONSize = ErrBadlyFormedAt offset"
| "decode_failure ErrUnexpectedEOF maxJSONSize = ErrBadlyFormed"
| "decode_failure (UnmarshalTypeError field offset) maxJSONSize =
     (if field \<noteq> [] then ErrIncorrectType field else ErrInvalidJSONAt offset)"
| "decode_failure EOF maxJSONSize = ErrEmptyBody"
| "decode_failure (InvalidUnmarshalError text) maxJSONSize =
     (if HasPrefix text ''json: unknown field''
      then ErrUnknownField (TrimPrefix text ''json: unknown field'')
      else if text = ''http: request body too large'' then ErrTooLarge maxJSONSize
      else ErrUnmarshalling text)"
| "decode_failure (OtherError text) maxJSONSize =
     (if HasPrefix text ''json: unknown field''
      then ErrUnknownField (TrimPrefix text ''json: unknown field'')
      else if text = ''http: request body too large'' then ErrTooLarge maxJSONSize
      else Lib (OtherError text))"

text \<open>
  ReadJSON returns its error, \<open>None\<close> for \<open>nil\<close>. The value decoded into \<open>data\<close> is not
  modelled. After the first value a second \<open>Decode\<close> must give exactly \<open>io.EOF\<close>.
\<close>

definition ReadJSON :: "Tools \<Rightarrow> Request \<Rightarrow> error option \<times> Tools" where
  "ReadJSON t r =
     (let maxJSONSize = (if MaxJSONSize t > 0 then MaxJSONSize t else 1024 * 1024)
      in if Header_Get r ''content-type'' \<noteq> ''application/json''
         then (Some (ErrContentType (Header_Get r ''content-type'')), t)
         else
           (let dec = Decode r maxJSONSize (\<not> AllowUnknownFields t)
            in case dec 0 of
                 Some err \<Rightarrow> (Some (decode_failure err maxJSONSize), t)
               | None \<Rightarrow>
                   if dec 1 \<noteq> Some EOF then (Some ErrOnlyOneValue, t) else (None, t)))"

section \<open>WriteJSON\<close>

text \<open>
  An \<open>http.ResponseWriter\<close> is an interface. Its model is the list of the calls made
  on it so far, oldest first, and what its \<open>Write\<close> answers.
\<close>

datatype call = Header_Set string string | WriteHeader int | Write string

record ResponseWriter =
  calls :: "call list"
  Write_err :: "string \<Rightarrow> lib_error option"

text \<open>
  WriteJSON. \<open>Marshal data\<close> is what \<open>json.Marshal(data)\<close> gives; \<open>headers\<close> is the list of
  the optional arguments, each a map given as the list of its keys with their values, in
  the order in which \<open>range\<close> visits them.
\<close>

definition WriteJSON ::
  "('a \<Rightarrow> lib_error + string) \<Rightarrow> ResponseWriter \<Rightarrow> int \<Rightarrow> 'a \<Rightarrow>
     (string \<times> string list) list list \<Rightarrow> error option \<times> ResponseWriter" where
  "WriteJSON Marshal w status data headers =
     (case Marshal data of
        Inl err \<Rightarrow> (Some (Lib err), w)
      | Inr out \<Rightarrow>
          (let w1 = (if length headers > 0
                     then w\<lparr>calls := calls w @
                            concat (map (\<lambda>(k, vs). map (Header_Set k) vs) (hd headers))\<rparr>
                     else w);
               w2 = w1\<lparr>calls := calls w1 @
                         [Header_Set ''content-type'' ''application/json'',
                          WriteHeader status, Write out]\<rparr>
           in case Write_err w out of
                Some err \<Rightarrow> (Some (Lib err), w2)
              | None \<Rightarrow> (None, w2)))"

section \<open>Example inputs\<close>

text \<open>
  An environment in which no call of the operating system fails: the random source
  gives two primes of 64 bits in turn, the sniffing knows the signature of a JPEG file
  and takes other binary data for \<open>application/octet-stream\<close>, and the functions on
  strings are those for ASCII.
\<close>

definition example_env :: env where
  "example_env =
     \<lparr>rand = (\<lambda>i. Prime (if even i then 18446744073709551557 else 18446744073709551533)),
      DetectContentType =
        (\<lambda>buf. if take 3 buf = [CHR 0xFF, CHR 0xD8, CHR 0xFF] then ''image/jpeg''
               else ''application/octet-stream''),
      EqualFold = (\<lambda>x y. ToLower x = ToLower y),
      TrimSpace = (\<lambda>s. Trim s '' ''),
      MkdirAll_err = (\<lambda>path. None),
      Create_err = (\<lambda>dir name. None),
      Copy_err = (\<lambda>dir name. None)\<rparr>"

definition example_world :: world where
  "example_world = \<lparr>rand_pos = 0, present = [], created = []\<rparr>"

definition example_tools :: "string list \<Rightarrow> Tools" where
  "example_tools types =
     \<lparr>MaxFileSize = 0, AllowedTypes = types, MaxJSONSize = 0, AllowUnknownFields = False\<rparr>"

text \<open>A file part with the first bytes of a JPEG file, and a file part of zero bytes.\<close>

definition example_jpeg :: FileHeader where
  "example_jpeg =
     \<lparr>Filename = ''./testdata/toby.jpg'',
      Open_result = Inr [CHR 0xFF, CHR 0xD8, CHR 0xFF, CHR 0xDB],
      Seek_err = None\<rparr>"

definition example_empty :: FileHeader where
  "example_empty = \<lparr>Filename = ''empty.txt'', Open_result = Inr [], Seek_err = None\<rparr>"

text \<open>
  A multipart request with these file parts in the field \<open>file\<close>; a request whose body
  is not a well-formed multipart body; and a request with the content type
  \<open>application/json\<close> whose body the decoder reads as the given results.
\<close>

definition example_upload :: "FileHeader list \<Rightarrow> Request" where
  "example_upload parts =
     \<lparr>ParseMultipartForm = (\<lambda>maxMemory. Inr [(''file'', parts)]),
      Header_Get = (\<lambda>key. []),
      Decode = (\<lambda>limit strict k. Some EOF)\<rparr>"

definition example_malformed :: Request where
  "example_malformed =
     \<lparr>ParseMultipartForm = (\<lambda>maxMemory. Inl (OtherError ''multipart: NextPart: EOF'')),
      Header_Get = (\<lambda>key. []),
      Decode = (\<lambda>limit strict k. Some EOF)\<rparr>"

definition example_json :: "lib_error option list \<Rightarrow> Request" where
  "example_json results =
     \<lparr>ParseMultipartForm = (\<lambda>maxMemory. Inl (OtherError ''request Content-Type isn't multipart/form-data'')),
      Header_Get = (\<lambda>key. if key = ''content-type'' then ''application/json'' else []),
      Decode = (\<lambda>limit strict k. if k < length results then results ! k else Some EOF)\<rparr>"

text \<open>A writer on which nothing has been called and whose \<open>Write\<close> succeeds.\<close>

definition example_writer :: ResponseWriter where
  "example_writer = \<lparr>calls = [], Write_err = (\<lambda>out. None)\<rparr>"

text \<open>
  A \<open>json.Marshal\<close> for payloads that are either a string, written as a JSON string
  without escapes, or a value that cannot be serialised, such as a channel.
\<close>

definition example_Marshal :: "string option \<Rightarrow> lib_error + string" where
  "example_Marshal data =
     (case data of
        None \<Rightarrow> Inl (OtherError ''json: unsupported type: chan int'')
      | Some s \<Rightarrow> Inr ([CHR 0x22] @ s @ [CHR 0x22]))"

section \<open>Properties of RandomString\<close>

declare RandomString_loop.simps [simp del]

lemma is_prime_odd: "is_prime p \<Longrightarrow> 2 < p \<Longrightarrow> odd p"
  unfolding is_prime_def by (metis atLeastLessThan_iff order_refl)

lemma pick_index: "pick p = randomStringSource ! (p mod 64)"
proof -
  have "(64::nat) dvd 2 ^ 64" by simp
  then have "p mod 2 ^ 64 mod 64 = p mod 64" by (rule mod_mod_cancel)
  then show ?thesis
    by (simp add: pick_def randomStringSource_def unat_mod_distrib unat_of_nat)
qed

lemma length_randomStringSource: "length randomStringSource = 64"
  by (simp add: randomStringSource_def)

lemma pick_in_alphabet: "pick p \<in> set randomStringSource"
  unfolding pick_index by (rule nth_mem) (simp add: length_randomStringSource)

lemma odd_positions:
  "\<forall>k<32. randomStringSource ! (2 * k + 1) = ''bdfhjlnprtvxzBDFHJLNPRTVXZ13579+'' ! k"
  by code_simp

lemma pick_odd:
  assumes "odd p"
  shows "pick p \<in> set ''bdfhjlnprtvxzBDFHJLNPRTVXZ13579+''"
proof -
  from assms have "odd (p mod 64)"
    by (metis dvd_mod_iff even_numeral)
  then obtain k where k: "p mod 64 = 2 * k + 1"
    by (auto elim: oddE)
  have "p mod 64 < 64" by simp
  with k have k32: "k < 32" by arith
  then have "pick p = ''bdfhjlnprtvxzBDFHJLNPRTVXZ13579+'' ! k"
    using odd_positions k by (simp add: pick_index)
  moreover have "length ''bdfhjlnprtvxzBDFHJLNPRTVXZ13579+'' = 32" by simp
  ultimately show ?thesis using k32 by (metis nth_mem)
qed

text \<open>
  The invariant of the loop: when the draws that are left all succeed with numbers
  that satisfy \<open>Q\<close>, and \<open>Q\<close> numbers select characters of \<open>A\<close>, the loop returns a
  slice of the same length whose elements are in \<open>A\<close>, given that those before \<open>i\<close>
  already are.
\<close>

lemma RandomString_loop_inv:
  assumes "\<forall>k < length s - i. \<exists>p. src (pos + k) = Prime p \<and> Q p"
    and "\<And>p. Q p \<Longrightarrow> pick p \<in> A"
    and "\<forall>j < i. s ! j \<in> A"
  shows "\<exists>s'. RandomString_loop src pos s i = (Return s', pos + (length s - i)) \<and>
           length s' = length s \<and> (\<forall>j < length s'. s' ! j \<in> A)"
  using assms
proof (induction src pos s i rule: RandomString_loop.induct)
  case (1 src pos s i)
  show ?case
  proof (cases "i < length s")
    case False
    with "1.prems"(3) show ?thesis
      by (simp add: RandomString_loop.simps [of src pos s i])
  next
    case True
    with "1.prems"(1) obtain p where p: "src pos = Prime p" "Q p"
      by (metis add.right_neutral zero_less_diff)
    let ?s = "s[i := pick p]"
    have a: "\<forall>k < length ?s - Suc i. \<exists>p. src (Suc pos + k) = Prime p \<and> Q p"
    proof (intro allI impI)
      fix k assume "k < length ?s - Suc i"
      then have "Suc k < length s - i" by simp
      with "1.prems"(1) have "\<exists>p. src (pos + Suc k) = Prime p \<and> Q p" by blast
      then show "\<exists>p. src (Suc pos + k) = Prime p \<and> Q p" by simp
    qed
    have b: "\<forall>j < Suc i. ?s ! j \<in> A"
      using "1.prems"(2,3) p(2) True by (auto simp: nth_list_update less_Suc_eq)
    from "1.IH" [OF True p(1) refl refl, folded pick_def, OF a "1.prems"(2) b]
    obtain s' where
      "RandomString_loop src (Suc pos) ?s (Suc i) =
         (Return s', Suc pos + (length ?s - Suc i))"
      "length s' = length ?s" "\<forall>j < length s'. s' ! j \<in> A"
      by blast
    with True p(1) show ?thesis
      by (simp add: RandomString_loop.simps [of src pos s i] pick_def Let_def)
  qed
qed

lemma RandomString_inv:
  assumes "0 \<le> n"
    and "\<forall>k < nat n. \<exists>p. src (pos + k) = Prime p \<and> Q p"
    and "\<And>p. Q p \<Longrightarrow> pick p \<in> A"
  shows "\<exists>s. RandomString src pos n = (Return s, pos + nat n) \<and>
           int (length s) = n \<and> set s \<subseteq> A"
proof -
  from RandomString_loop_inv [of "replicate (nat n) (CHR 0x00)" 0 src pos Q A] assms(2,3)
  obtain s' where s':
    "RandomString_loop src pos (replicate (nat n) (CHR 0x00)) 0 = (Return s', pos + nat n)"
    "length s' = nat n" "\<forall>j < length s'. s' ! j \<in> A"
    by auto
  from s'(3) have "set s' \<subseteq> A" by (auto simp: in_set_conv_nth)
  with s'(1,2) assms(1) show ?thesis by (simp add: RandomString_def)
qed

text \<open>
  Claim C9: for all \<open>n \<ge> 0\<close> and whatever numbers the random source draws,
  \<open>RandomString(n)\<close> returns a string of length exactly \<open>n\<close>, and every character of it
  is a member of the alphabet of 64 characters. The call returns whenever none of its
  \<open>n\<close> draws is a failure of the reader, which is the one case that ends the process.
\<close>

theorem RandomString_length_alphabet:
  assumes "0 \<le> n" and "\<forall>k < nat n. src (pos + k) \<noteq> ReaderError"
  shows "\<exists>s. RandomString src pos n = (Return s, pos + nat n) \<and>
           int (length s) = n \<and> set s \<subseteq> set randomStringSource"
proof -
  have "\<forall>k < nat n. \<exists>p. src (pos + k) = Prime p \<and> True"
    using assms(2) by (metis prime_draw.exhaust)
  with assms(1) show ?thesis
    by (rule RandomString_inv) (rule pick_in_alphabet)
qed

theorem RandomString_length_alphabet_witness:
  "(0::int) \<le> 3 \<and> rand example_env 0 \<noteq> ReaderError \<and>
   rand example_env 1 \<noteq> ReaderError \<and> rand example_env 2 \<noteq> ReaderError \<and>
   (\<exists>s. RandomString (rand example_env) 0 3 = (Return s, 0 + nat 3) \<and>
         int (length s) = 3 \<and> set s \<subseteq> set randomStringSource)"
  using RandomString_length_alphabet [where n = 3 and src = "rand example_env" and pos = 0]
  by (simp add: example_env_def)

text \<open>
  Claim C1, which the code does not meet: the claim has every one of the 64 positions
  of the alphabet selected by some draw. A prime of 64 bits is odd (\<open>is_prime_odd\<close>),
  and \<open>64\<close> is even, so \<open>x % y\<close> is odd: whenever the drawn numbers are odd,
  every character of the result is one of the 32 characters at the odd positions,
  and the character at position 0 never occurs.
\<close>

theorem RandomString_odd_positions_only:
  assumes "0 \<le> n" and "\<forall>k < nat n. \<exists>p. src (pos + k) = Prime p \<and> odd p"
  shows "\<exists>s. RandomString src pos n = (Return s, pos + nat n) \<and>
           set s \<subseteq> set ''bdfhjlnprtvxzBDFHJLNPRTVXZ13579+'' \<and>
           randomStringSource ! 0 \<notin> set s"
proof -
  from RandomString_inv [of n src pos odd, OF assms pick_odd]
  obtain s where s: "RandomString src pos n = (Return s, pos + nat n)"
    "set s \<subseteq> set ''bdfhjlnprtvxzBDFHJLNPRTVXZ13579+''"
    by blast
  have "randomStringSource ! 0 \<notin> set ''bdfhjlnprtvxzBDFHJLNPRTVXZ13579+''"
    by (simp add: randomStringSource_def)
  with s show ?thesis by blast
qed

theorem RandomString_odd_positions_only_witness:
  "(0::int) \<le> 2 \<and>
   rand example_env 0 = Prime 18446744073709551557 \<and> odd (18446744073709551557 :: nat) \<and>
   rand example_env 1 = Prime 18446744073709551533 \<and> odd (18446744073709551533 :: nat) \<and>
   (\<exists>s. RandomString (rand example_env) 0 2 = (Return s, 0 + nat 2) \<and>
         set s \<subseteq> set ''bdfhjlnprtvxzBDFHJLNPRTVXZ13579+'' \<and>
         randomStringSource ! 0 \<notin> set s)"
  using RandomString_odd_positions_only [where n = 2 and src = "rand example_env" and pos = 0]
  by (simp add: example_env_def)

section \<open>Properties of Slugify\<close>

text \<open>
  Claim C2, which the code does not meet: the claim has the digits kept and every
  character outside \<open>a-z\<close> and \<open>0-9\<close> replaced. The class of the source names \<open>/\<close> and
  \<open>d\<close> where the comment beside it says digits, so a digit is replaced by the hyphen
  and a slash is kept: on \<open>a1\<close> and on \<open>a/b\<close> the slug of the code is not the slug
  that the specification describes.
\<close>

theorem Slugify_digit_and_slash:
  "Slugify ''a1'' = Inr ''a'' \<and> Slugify_spec ''a1'' = Inr ''a1'' \<and>
   Slugify ''a/b'' = Inr ''a/b'' \<and> Slugify_spec ''a/b'' = Inr ''a-b''"
  by (simp add: Slugify_def Slugify_spec_def Trim_def ToLower_def source_class_def
        spec_class_def in_range_def)

section \<open>Properties of UploadFile and UploadOneFile\<close>

lemma created_CreateDirIfNotExists:
  "CreateDirIfNotExists E path w = (res, w') \<Longrightarrow> created w' = created w"
  by (auto simp: CreateDirIfNotExists_def split: if_splits option.splits)

lemma AllowedTypes_default: "AllowedTypes (default_MaxFileSize t) = AllowedTypes t"
  by (simp add: default_MaxFileSize_def)

text \<open>File parts that are all accepted are a prefix that the loop runs through.\<close>

lemma upload_parts_append:
  assumes "upload_parts E t d rn xs acc w = (Return (files, None), wpre)"
  shows "upload_parts E t d rn (xs @ ys) acc w = upload_parts E t d rn ys files wpre"
  using assms
proof (induction xs arbitrary: acc w)
  case Nil
  then show ?case by simp
next
  case (Cons x xs)
  from Cons.prems obtain fs w' where
    step: "upload_part E t d rn x acc w = (Return (Inr fs), w')"
    and rest: "upload_parts E t d rn xs fs w' = (Return (files, None), wpre)"
    by (auto split: prod.splits outcome.splits sum.splits)
  from Cons.IH [OF rest] step show ?case by simp
qed

lemma upload_part_empty:
  "Open_result hdrs = Inr [] \<Longrightarrow>
     upload_part E t d rn hdrs acc w = (Return (Inl (Lib EOF)), w)"
  by (simp add: upload_part_def Read512_def)

lemma upload_part_rejected:
  assumes "Open_result hdrs = Inr content" and "Read512 content = Inr buf"
    and "\<not> type_allowed E t (DetectContentType E buf)"
  shows "upload_part E t d rn hdrs acc w = (Return (Inl ErrTypeNotPermitted), w)"
  using assms by (simp add: upload_part_def)

lemma upload_parts_stop:
  assumes "upload_parts E t d rn pre [] wdir = (Return (files, None), wpre)"
    and "upload_part E t d rn hdrs files wpre = (Return (Inl err), wpre)"
  shows "upload_parts E t d rn (pre @ hdrs # rest) [] wdir = (Return ([], Some err), wpre)"
  using upload_parts_append [OF assms(1)] assms(2) by simp

lemma UploadFile_stop:
  assumes "ParseMultipartForm r (MaxFileSize (default_MaxFileSize t)) = Inr form"
    and "CreateDirIfNotExists E uploadDir w = (None, wdir)"
    and "concat (map snd form) = pre @ hdrs # rest"
    and "upload_parts E (default_MaxFileSize t) uploadDir (rename_flag rename) pre [] wdir =
           (Return (files, None), wpre)"
    and "upload_part E (default_MaxFileSize t) uploadDir (rename_flag rename) hdrs files wpre =
           (Return (Inl err), wpre)"
  shows "UploadFile E t r uploadDir rename w =
           (Return ([], Some err), default_MaxFileSize t, wpre)"
  using assms(1,2,3) upload_parts_stop [OF assms(4,5)]
  by (simp add: UploadFile_def)

lemma UploadFile_Tools:
  "fst (snd (UploadFile E t r uploadDir rename w)) = default_MaxFileSize t"
  by (simp add: UploadFile_def Let_def split: sum.splits prod.splits option.splits)

lemma UploadOneFile_Tools:
  "fst (snd (UploadOneFile E t r uploadDir rename w)) = default_MaxFileSize t"
  using UploadFile_Tools [of E t r uploadDir "[rename_flag rename]" w]
  by (auto simp: UploadOneFile_def Let_def
           split: sum.splits prod.splits option.splits outcome.splits list.splits)

text \<open>
  Claim C3, which the code does not meet: the claim has UploadFile return an error
  value when the multipart body is malformed or too large. When
  \<open>r.ParseMultipartForm\<close> returns an error, the code calls \<open>log.Fatal\<close>: the process
  ends and the caller gets no value.
\<close>

theorem UploadFile_parse_failure_exits:
  assumes "ParseMultipartForm r (MaxFileSize (default_MaxFileSize t)) = Inl err"
  shows "UploadFile E t r uploadDir rename w = (Exit, default_MaxFileSize t, w)"
  using assms by (simp add: UploadFile_def)

theorem UploadFile_parse_failure_exits_witness:
  "ParseMultipartForm example_malformed (MaxFileSize (default_MaxFileSize (example_tools []))) =
     Inl (OtherError ''multipart: NextPart: EOF'') \<and>
   UploadFile example_env (example_tools []) example_malformed ''./testdata/upload'' []
     example_world =
     (Exit, default_MaxFileSize (example_tools []), example_world)"
  using UploadFile_parse_failure_exits
    [where r = example_malformed and t = "example_tools []"
       and err = "OtherError ''multipart: NextPart: EOF''" and E = example_env
       and uploadDir = "''./testdata/upload''" and rename = "[]" and w = example_world]
  by (simp add: example_malformed_def)

text \<open>
  Claim C4, which the code does not meet: the claim has UploadOneFile require at least
  one file and return an error for a request without file parts. For a request that
  parses and has no file part, UploadFile returns an empty list and no error, and
  \<open>uploadedFile[0]\<close> panics.
\<close>

theorem UploadOneFile_no_file_panics:
  assumes "ParseMultipartForm r (MaxFileSize (default_MaxFileSize t)) = Inr form"
    and "concat (map snd form) = []"
    and "CreateDirIfNotExists E uploadDir w = (None, wdir)"
  shows "UploadOneFile E t r uploadDir rename w = (Panic, default_MaxFileSize t, wdir)"
proof -
  have "UploadFile E t r uploadDir [rename_flag rename] w =
          (Return ([], None), default_MaxFileSize t, wdir)"
    using assms by (simp add: UploadFile_def del: concat_eq_Nil_conv)
  then show ?thesis by (simp add: UploadOneFile_def)
qed

theorem UploadOneFile_no_file_panics_witness:
  "ParseMultipartForm (example_upload []) (MaxFileSize (default_MaxFileSize (example_tools []))) =
     Inr [(''file'', [])] \<and>
   concat (map snd [(''file'', [])]) = ([] :: FileHeader list) \<and>
   CreateDirIfNotExists example_env ''./testdata/upload'' example_world =
     (None, example_world\<lparr>present := [''./testdata/upload'']\<rparr>) \<and>
   UploadOneFile example_env (example_tools []) (example_upload []) ''./testdata/upload'' [True]
     example_world =
     (Panic, default_MaxFileSize (example_tools []),
      example_world\<lparr>present := [''./testdata/upload'']\<rparr>)"
  using UploadOneFile_no_file_panics
    [where r = "example_upload []" and t = "example_tools []" and form = "[(''file'', [])]"
       and E = example_env and uploadDir = "''./testdata/upload''" and rename = "[True]"
       and w = example_world and wdir = "example_world\<lparr>present := [''./testdata/upload'']\<rparr>"]
  by (simp add: example_upload_def example_env_def example_world_def
        CreateDirIfNotExists_def Trim_def)

text \<open>
  Claim C5: with a non-empty \<open>AllowedTypes\<close> and a file part whose sniffed type is
  \<open>EqualFold\<close> to no entry, the call fails with the error "the uploaded file type is
  not permitted". The file parts before it have all been accepted and have left the
  world \<open>wpre\<close>; the call returns with that world, so nothing is written for the rejected
  part, and the parts after it (\<open>rest\<close>) are not processed. When the rejected part is
  the first one, which it is in a request with only that part, the files are those
  from before the call.
\<close>

theorem UploadFile_type_not_permitted:
  assumes "ParseMultipartForm r (MaxFileSize (default_MaxFileSize t)) = Inr form"
    and "CreateDirIfNotExists E uploadDir w = (None, wdir)"
    and "concat (map snd form) = pre @ hdrs # rest"
    and "upload_parts E (default_MaxFileSize t) uploadDir (rename_flag rename) pre [] wdir =
           (Return (files, None), wpre)"
    and "Open_result hdrs = Inr content" and "Read512 content = Inr buf"
    and "AllowedTypes t \<noteq> []"
    and "\<forall>x \<in> set (AllowedTypes t). \<not> EqualFold E x (DetectContentType E buf)"
  shows "UploadFile E t r uploadDir rename w =
           (Return ([], Some ErrTypeNotPermitted), default_MaxFileSize t, wpre) \<and>
         (pre = [] \<longrightarrow> created wpre = created w)"
proof -
  from assms(7,8)
  have "\<not> type_allowed E (default_MaxFileSize t) (DetectContentType E buf)"
    by (simp add: type_allowed_def list_ex_iff AllowedTypes_default)
  with assms(5,6)
  have "upload_part E (default_MaxFileSize t) uploadDir (rename_flag rename) hdrs files wpre =
          (Return (Inl ErrTypeNotPermitted), wpre)"
    by (rule upload_part_rejected)
  with assms(1-4)
  have "UploadFile E t r uploadDir rename w =
          (Return ([], Some ErrTypeNotPermitted), default_MaxFileSize t, wpre)"
    by (rule UploadFile_stop)
  moreover have "created wpre = created w" if "pre = []"
    using that assms(2,4) by (auto dest: created_CreateDirIfNotExists)
  ultimately show ?thesis by simp
qed

theorem UploadFile_type_not_permitted_witness:
  "ParseMultipartForm (example_upload [example_jpeg, example_jpeg])
     (MaxFileSize (default_MaxFileSize (example_tools [''image/png'']))) =
     Inr [(''file'', [example_jpeg, example_jpeg])] \<and>
   CreateDirIfNotExists example_env ''./testdata/upload'' example_world =
     (None, example_world\<lparr>present := [''./testdata/upload'']\<rparr>) \<and>
   concat (map snd [(''file'', [example_jpeg, example_jpeg])]) =
     [] @ example_jpeg # [example_jpeg] \<and>
   Open_result example_jpeg = Inr [CHR 0xFF, CHR 0xD8, CHR 0xFF, CHR 0xDB] \<and>
   AllowedTypes (example_tools [''image/png'']) \<noteq> [] \<and>
   UploadFile example_env (example_tools [''image/png''])
     (example_upload [example_jpeg, example_jpeg]) ''./testdata/upload'' [True] example_world =
     (Return ([], Some ErrTypeNotPermitted), default_MaxFileSize (example_tools [''image/png'']),
      example_world\<lparr>present := [''./testdata/upload'']\<rparr>) \<and>
   created (example_world\<lparr>present := [''./testdata/upload'']\<rparr>) = created example_world"
  using UploadFile_type_not_permitted
    [where r = "example_upload [example_jpeg, example_jpeg]"
       and t = "example_tools [''image/png'']"
       and form = "[(''file'', [example_jpeg, example_jpeg])]"
       and E = example_env and uploadDir = "''./testdata/upload''" and rename = "[True]"
       and w = example_world and wdir = "example_world\<lparr>present := [''./testdata/upload'']\<rparr>"
       and pre = "[]" and hdrs = example_jpeg and rest = "[example_jpeg]" and files = "[]"
       and wpre = "example_world\<lparr>present := [''./testdata/upload'']\<rparr>"
       and content = "[CHR 0xFF, CHR 0xD8, CHR 0xFF, CHR 0xDB]"
       and buf = "[CHR 0xFF, CHR 0xD8, CHR 0xFF, CHR 0xDB] @ replicate 508 (CHR 0x00)"]
  by (simp add: example_upload_def example_env_def example_world_def example_tools_def
        example_jpeg_def CreateDirIfNotExists_def Trim_def Read512_def ToLower_def in_range_def)

text \<open>
  Claim C10: for a request with a file part of zero bytes, the first \<open>Read\<close> of the
  part returns \<open>io.EOF\<close>, and UploadFile returns that error and no record. The file
  parts before it have all been accepted and have left the world \<open>wpre\<close>; the call
  returns with that world, so nothing is written for the empty part.
\<close>

theorem UploadFile_empty_file_EOF:
  assumes "ParseMultipartForm r (MaxFileSize (default_MaxFileSize t)) = Inr form"
    and "CreateDirIfNotExists E uploadDir w = (None, wdir)"
    and "concat (map snd form) = pre @ hdrs # rest"
    and "upload_parts E (default_MaxFileSize t) uploadDir (rename_flag rename) pre [] wdir =
           (Return (files, None), wpre)"
    and "Open_result hdrs = Inr []"
  shows "UploadFile E t r uploadDir rename w =
           (Return ([], Some (Lib EOF)), default_MaxFileSize t, wpre)"
  using assms(1-4) upload_part_empty [OF assms(5)] by (rule UploadFile_stop)

theorem UploadFile_empty_file_EOF_witness:
  "ParseMultipartForm (example_upload [example_jpeg, example_empty])
     (MaxFileSize (default_MaxFileSize (example_tools []))) =
     Inr [(''file'', [example_jpeg, example_empty])] \<and>
   CreateDirIfNotExists example_env ''./testdata/upload'' example_world =
     (None, example_world\<lparr>present := [''./testdata/upload'']\<rparr>) \<and>
   concat (map snd [(''file'', [example_jpeg, example_empty])]) =
     [example_jpeg] @ example_empty # [] \<and>
   upload_parts example_env (default_MaxFileSize (example_tools [])) ''./testdata/upload''
     (rename_flag [False]) [example_jpeg] []
     (example_world\<lparr>present := [''./testdata/upload'']\<rparr>) =
     (Return ([\<lparr>NewFileName = ''./testdata/toby.jpg'',
                OriginalFileName = ''./testdata/toby.jpg'', FileSize = 4\<rparr>], None),
      \<lparr>rand_pos = 0, present = [''./testdata/upload''],
       created = [(''./testdata/upload'', ''./testdata/toby.jpg'',
                   [CHR 0xFF, CHR 0xD8, CHR 0xFF, CHR 0xDB])]\<rparr>) \<and>
   Open_result example_empty = Inr [] \<and>
   UploadFile example_env (example_tools []) (example_upload [example_jpeg, example_empty])
     ''./testdata/upload'' [False] example_world =
     (Return ([], Some (Lib EOF)), default_MaxFileSize (example_tools []),
      \<lparr>rand_pos = 0, present = [''./testdata/upload''],
       created = [(''./testdata/upload'', ''./testdata/toby.jpg'',
                   [CHR 0xFF, CHR 0xD8, CHR 0xFF, CHR 0xDB])]\<rparr>)"
  using UploadFile_empty_file_EOF
    [where r = "example_upload [example_jpeg, example_empty]" and t = "example_tools []"
       and form = "[(''file'', [example_jpeg, example_empty])]"
       and E = example_env and uploadDir = "''./testdata/upload''" and rename = "[False]"
       and w = example_world and wdir = "example_world\<lparr>present := [''./testdata/upload'']\<rparr>"
       and pre = "[example_jpeg]" and hdrs = example_empty and rest = "[]"
       and files = "[\<lparr>NewFileName = ''./testdata/toby.jpg'',
                     OriginalFileName = ''./testdata/toby.jpg'', FileSize = 4\<rparr>]"
       and wpre = "\<lparr>rand_pos = 0, present = [''./testdata/upload''],
                  created = [(''./testdata/upload'', ''./testdata/toby.jpg'',
                              [CHR 0xFF, CHR 0xD8, CHR 0xFF, CHR 0xDB])]\<rparr>"]
  by (simp add: example_upload_def example_env_def example_world_def example_tools_def
        example_jpeg_def example_empty_def CreateDirIfNotExists_def Trim_def Read512_def
        upload_part_def type_allowed_def rename_flag_def default_MaxFileSize_def)

section \<open>Properties of ReadJSON and WriteJSON\<close>

text \<open>
  Claim C6: when the content type is \<open>application/json\<close> and the first \<open>Decode\<close> has
  read one value, what follows it is read by a second \<open>Decode\<close>. If that finds
  anything other than the end of the input, which is the result \<open>io.EOF\<close>, ReadJSON
  returns the error "body must contain only one JSON value"; if it finds the end of
  the input, ReadJSON returns \<open>nil\<close>.
\<close>

theorem ReadJSON_only_one_value:
  assumes "Header_Get r ''content-type'' = ''application/json''"
    and "Decode r (if MaxJSONSize t > 0 then MaxJSONSize t else 1024 * 1024)
           (\<not> AllowUnknownFields t) 0 = None"
  shows "fst (ReadJSON t r) =
           (if Decode r (if MaxJSONSize t > 0 then MaxJSONSize t else 1024 * 1024)
                 (\<not> AllowUnknownFields t) 1 = Some EOF
            then None else Some ErrOnlyOneValue)"
  using assms by (simp add: ReadJSON_def Let_def)

theorem ReadJSON_only_one_value_witness:
  "Header_Get (example_json [None, None]) ''content-type'' = ''application/json'' \<and>
   Decode (example_json [None, None]) (1024 * 1024) True 0 = None \<and>
   Decode (example_json [None, None]) (1024 * 1024) True 1 \<noteq> Some EOF \<and>
   fst (ReadJSON (example_tools []) (example_json [None, None])) = Some ErrOnlyOneValue \<and>
   Header_Get (example_json [None]) ''content-type'' = ''application/json'' \<and>
   Decode (example_json [None]) (1024 * 1024) True 0 = None \<and>
   Decode (example_json [None]) (1024 * 1024) True 1 = Some EOF \<and>
   fst (ReadJSON (example_tools []) (example_json [None])) = None"
  using ReadJSON_only_one_value [where r = "example_json [None, None]" and t = "example_tools []"]
    ReadJSON_only_one_value [where r = "example_json [None]" and t = "example_tools []"]
  by (simp add: example_json_def example_tools_def)

text \<open>
  Claim C7: when the serialisation of the payload fails, WriteJSON returns that error
  and the writer is as it was: no header has been set, no status written and no byte
  of a body written, since \<open>json.Marshal\<close> is the first thing the function does.
\<close>

theorem WriteJSON_Marshal_failure:
  assumes "Marshal data = Inl err"
  shows "WriteJSON Marshal w status data headers = (Some (Lib err), w)"
  using assms by (simp add: WriteJSON_def)

theorem WriteJSON_Marshal_failure_witness:
  "example_Marshal None = Inl (OtherError ''json: unsupported type: chan int'') \<and>
   WriteJSON example_Marshal example_writer 200 None [[(''foo'', [''bar''])]] =
     (Some (Lib (OtherError ''json: unsupported type: chan int'')), example_writer)"
  using WriteJSON_Marshal_failure
    [where Marshal = example_Marshal and data = None
       and err = "OtherError ''json: unsupported type: chan int''" and w = example_writer
       and status = 200 and headers = "[[(''foo'', [''bar''])]]"]
  by (simp add: example_Marshal_def)

section \<open>The configuration across the calls\<close>

text \<open>
  Claim C8 as it is stated fails: UploadFile writes \<open>MaxFileSize\<close>. Called with the
  field at 0, it leaves it at 1073741824.
\<close>

theorem UploadFile_writes_MaxFileSize:
  "MaxFileSize (example_tools []) = 0 \<and>
   MaxFileSize (fst (snd (UploadFile example_env (example_tools []) (example_upload [example_jpeg])
      ''./testdata/upload'' [False] example_world))) = 1073741824"
  by (simp add: UploadFile_Tools default_MaxFileSize_def example_tools_def)

text \<open>
  Claim C8 as amended: of the methods that look at the configuration, ReadJSON leaves
  it as it was, and UploadFile and UploadOneFile leave \<open>AllowedTypes\<close>, \<open>MaxJSONSize\<close>
  and \<open>AllowUnknownFields\<close> as they were and change \<open>MaxFileSize\<close> only from 0 to
  1073741824. RandomString, CreateDirIfNotExists, Slugify and WriteJSON do not look at
  the configuration at all.
\<close>

theorem Tools_after_call:
  "snd (ReadJSON t r) = t \<and>
   fst (snd (UploadFile E t r uploadDir rename w)) = default_MaxFileSize t \<and>
   fst (snd (UploadOneFile E t r uploadDir rename w)) = default_MaxFileSize t \<and>
   AllowedTypes (default_MaxFileSize t) = AllowedTypes t \<and>
   MaxJSONSize (default_MaxFileSize t) = MaxJSONSize t \<and>
   AllowUnknownFields (default_MaxFileSize t) = AllowUnknownFields t \<and>
   MaxFileSize (default_MaxFileSize t) =
     (if MaxFileSize t = 0 then 1073741824 else MaxFileSize t)"
proof -
  have "snd (ReadJSON t r) = t"
    by (simp add: ReadJSON_def Let_def split: option.splits)
  then show ?thesis
    by (simp add: UploadFile_Tools UploadOneFile_Tools default_MaxFileSize_def)
qed

theorem Tools_after_call_witness:
  "snd (ReadJSON (example_tools [''image/png'']) (example_json [None])) =
     example_tools [''image/png''] \<and>
   fst (snd (UploadFile example_env (example_tools [''image/png''])
     (example_upload [example_jpeg]) ''./testdata/upload'' [] example_world)) =
     \<lparr>MaxFileSize = 1073741824, AllowedTypes = [''image/png''], MaxJSONSize = 0,
      AllowUnknownFields = False\<rparr> \<and>
   fst (snd (UploadOneFile example_env (example_tools [''image/png''])
     (example_upload [example_jpeg]) ''./testdata/upload'' [] example_world)) =
     \<lparr>MaxFileSize = 1073741824, AllowedTypes = [''image/png''], MaxJSONSize = 0,
      AllowUnknownFields = False\<rparr>"
  using Tools_after_call
    [where t = "example_tools [''image/png'']" and r = "example_json [None]"]
    Tools_after_call
    [where t = "example_tools [''image/png'']" and r = "example_upload [example_jpeg]"
       and E = example_env and uploadDir = "''./testdata/upload''" and rename = "[]"
       and w = example_world]
  by (simp add: default_MaxFileSize_def example_tools_def)

end
